theory Spec2Isabelle
  imports Complex_Main
begin

section \<open>Data model of \<open>sns_ik.cpp\<close>\<close>

text \<open>
  The scalar type of the source is \<open>double\<close>. The model keeps it as a type variable
  \<open>'a\<close> that only carries the syntax the source uses (zero, one, the arithmetic of the
  nullspace velocity, the comparisons and the constant of the joint classification), so
  every theorem below holds for any arithmetic on the scalars, rounding included.
  Container sizes and indices are natural numbers: the widths of \<open>size_t\<close>,
  \<open>unsigned int\<close> and \<open>int\<close> are not modelled.

  A dereferenced null \<open>shared_ptr\<close> and an Eigen coefficient access outside the
  allocated dimensions (Eigen asserts \<open>row < rows() && col < cols()\<close>) are the two ways
  the code can leave its defined behaviour; both are values of \<open>error\<close>.
\<close>

datatype error = EigenIndexOutOfRange | NullPointerDereference

subsection \<open>Eigen: dynamic vectors and matrices\<close>

type_synonym 'a VectorD = "'a list"

text \<open>
  \<open>MatrixD\<close> and \<open>VectorD\<close> are the library's names for Eigen's dynamic matrix and
  vector of doubles (their typedefs are in a header outside this file). A matrix has its
  two dimensions and its coefficients, stored column by column as Eigen does by default;
  \<open>MatrixD::Zero(r, c)\<close> has \<open>r\<close> rows and \<open>c\<close> columns, and \<open>m(i, j)\<close> is the
  coefficient in row \<open>i\<close> and column \<open>j\<close>.
\<close>

record 'a MatrixD =
  mat_rows :: nat
  mat_cols :: nat
  mat_data :: "'a list"

definition MatrixD_Zero :: "nat \<Rightarrow> nat \<Rightarrow> ('a::zero) MatrixD" where
  "MatrixD_Zero r c = \<lparr>mat_rows = r, mat_cols = c, mat_data = replicate (r * c) 0\<rparr>"

definition MatrixD_at :: "'a MatrixD \<Rightarrow> nat \<Rightarrow> nat \<Rightarrow> error + 'a" where
  "MatrixD_at m i j =
     (if i < mat_rows m \<and> j < mat_cols m then Inr (mat_data m ! (j * mat_rows m + i))
      else Inl EigenIndexOutOfRange)"

definition MatrixD_set :: "'a MatrixD \<Rightarrow> nat \<Rightarrow> nat \<Rightarrow> 'a \<Rightarrow> error + 'a MatrixD" where
  "MatrixD_set m i j v =
     (if i < mat_rows m \<and> j < mat_cols m
      then Inr (m\<lparr>mat_data := (mat_data m)[j * mat_rows m + i := v]\<rparr>)
      else Inl EigenIndexOutOfRange)"

definition VectorD_at :: "'a VectorD \<Rightarrow> nat \<Rightarrow> error + 'a" where
  "VectorD_at v i = (if i < length v then Inr (v ! i) else Inl EigenIndexOutOfRange)"

subsection \<open>KDL: joints, chains, twists and frames\<close>

text \<open>
  KDL is a library the file links against. A chain is its public vector of segments;
  \<open>getNrOfJoints\<close> counts the segments whose joint is not fixed, and
  \<open>getTypeName\<close> prints the joint type's enumerator.
\<close>

datatype KDL_JointType =
  RotAxis | RotX | RotY | RotZ | TransAxis | TransX | TransY | TransZ | JointNone

record Joint =
  joint_name :: string
  joint_type :: KDL_JointType

record Segment =
  segment_name :: string
  segment_joint :: Joint

record Chain =
  segments :: "Segment list"

fun getTypeName :: "Joint \<Rightarrow> string" where
  "getTypeName j =
     (case joint_type j of
        RotAxis \<Rightarrow> ''RotAxis'' | RotX \<Rightarrow> ''RotX'' | RotY \<Rightarrow> ''RotY'' | RotZ \<Rightarrow> ''RotZ''
      | TransAxis \<Rightarrow> ''TransAxis'' | TransX \<Rightarrow> ''TransX'' | TransY \<Rightarrow> ''TransY''
      | TransZ \<Rightarrow> ''TransZ'' | JointNone \<Rightarrow> ''None'')"

definition is_movable :: "Segment \<Rightarrow> bool" where
  "is_movable seg = (joint_type (segment_joint seg) \<noteq> JointNone)"

definition getNrOfJoints :: "Chain \<Rightarrow> nat" where
  "getNrOfJoints c = length (filter is_movable (segments c))"

datatype 'a Vector3 = Vector3 'a 'a 'a

fun Vector3_at :: "'a Vector3 \<Rightarrow> nat \<Rightarrow> 'a" where
  "Vector3_at (Vector3 x y z) i = (if i = 0 then x else if i = 1 then y else z)"

record 'a Twist =
  twist_vel :: "'a Vector3"
  twist_rot :: "'a Vector3"

definition Twist_at :: "'a Twist \<Rightarrow> nat \<Rightarrow> 'a" where
  "Twist_at t i = (if i < 3 then Vector3_at (twist_vel t) i else Vector3_at (twist_rot t) (i - 3))"

record 'a Frame =
  frame_M :: "'a list"
  frame_p :: "'a Vector3"

subsection \<open>Strings\<close>

text \<open>\<open>std::string::find(pat) != npos\<close>: the pattern occurs somewhere in the string.\<close>

fun starts_with :: "string \<Rightarrow> string \<Rightarrow> bool" where
  "starts_with cs [] = True"
| "starts_with [] (p # ps) = False"
| "starts_with (c # cs) (p # ps) = (c = p \<and> starts_with cs ps)"

fun string_contains :: "string \<Rightarrow> string \<Rightarrow> bool" where
  "string_contains [] pat = (pat = [])"
| "string_contains (c # cs) pat = (starts_with (c # cs) pat \<or> string_contains cs pat)"

text \<open>
  \<open>std::find\<close> followed by \<open>std::distance\<close> from \<open>begin()\<close>: the position of the first
  element equal to \<open>x\<close>, and the length of the list (the distance of \<open>end()\<close>) when
  there is none.
\<close>

fun std_find :: "'b list \<Rightarrow> 'b \<Rightarrow> nat" where
  "std_find [] x = 0"
| "std_find (y # ys) x = (if y = x then 0 else Suc (std_find ys x))"

text \<open>\<open>std::vector::resize(n, v)\<close>.\<close>

definition vector_resize :: "nat \<Rightarrow> 'b \<Rightarrow> 'b list \<Rightarrow> 'b list" where
  "vector_resize n v xs = take n xs @ replicate (n - length xs) v"

subsection \<open>The solver objects and the \<open>SNS_IK\<close> instance\<close>

text \<open>
  Modelled from the spec: the declarations of \<open>VelocitySolveType\<close>, of
  \<open>SNS_IK::JointType\<close> and of \<open>Task\<close> are in headers that are not among the sources.
  The spec's closed set of five strategy tags appears here under the names of the case
  labels of the switch in \<open>setVelocitySolveType\<close>; a value of the enumeration that is
  none of them (the spec's unknown tag) is \<open>SNS_Unrecognized\<close> and takes the switch's
  default branch. The kinematic types are the spec's Revolute, Prismatic and Continuous,
  and a task pairs a Jacobian with a desired-velocity vector.
\<close>

datatype VelocitySolveType =
  SNS | SNS_Optimal | SNS_OptimalScaleMargin | SNS_Fast | SNS_FastOptimal
  | SNS_Unrecognized nat

datatype JointType = Revolute | Prismatic | Continuous

datatype SolverClass =
  OSNS_sm_VelocityIK | OSNSVelocityIK | FSNSVelocityIK | FOSNSVelocityIK | SNSVelocityIK

text \<open>
  Modelled from the spec: the solver classes are defined outside this file. A velocity
  solver is what this file makes of it: the class that was instantiated, the two
  constructor arguments, the four capability arrays it was given and the position-limit
  switch. The position solver wraps the chain, the velocity solver and the tolerance.
  What the solvers compute is a parameter of the solve calls (\<open>Collaborators\<close> below).
\<close>

record 'a VelocitySolver =
  solver_class :: SolverClass
  solver_dof :: nat
  solver_loop_period :: 'a
  solver_capabilities :: "('a list \<times> 'a list \<times> 'a list \<times> 'a list) option"
  solver_usePositionLimits :: "bool option"

record 'a SNSPositionIK =
  pos_chain :: Chain
  pos_velocity_ik :: "'a VelocitySolver"
  pos_eps :: 'a

record 'a SNS_IK =
  m_initialized :: bool
  m_eps :: 'a
  m_looprate :: 'a
  m_nullspaceGain :: 'a
  m_solvetype :: VelocitySolveType
  m_chain :: Chain
  m_lower_bounds :: "'a list"
  m_upper_bounds :: "'a list"
  m_velocity :: "'a list"
  m_acceleration :: "'a list"
  m_jointNames :: "string list"
  m_types :: "JointType list"
  m_jacobianSolver :: "Chain option"
  m_ik_vel_solver :: "'a VelocitySolver option"
  m_ik_pos_solver :: "'a SNSPositionIK option"

record 'a Task =
  jacobian :: "'a MatrixD"
  desired :: "'a VectorD"

section \<open>\<open>SNS_IK::nullspaceBiasTask\<close>\<close>

text \<open>
  The loop over the bias joints, from \<open>ii\<close> upwards. The result is the returned flag
  with the two output parameters as the loop leaves them.
\<close>

function nullspaceBias_loop ::
  "string list \<Rightarrow> string list \<Rightarrow> nat \<Rightarrow> nat \<Rightarrow> ('a::one) MatrixD \<Rightarrow> nat list
     \<Rightarrow> error + (bool \<times> 'a MatrixD \<times> nat list)" where
  "nullspaceBias_loop jointNames biasNames k ii jac indicies =
     (if ii < k then
        (let indx = std_find jointNames (biasNames ! ii) in
         if indx = length jointNames then Inr (False, jac, indicies)
         else
           (case MatrixD_set jac ii indx 1 of
              Inl e \<Rightarrow> Inl e
            | Inr jac' \<Rightarrow>
                nullspaceBias_loop jointNames biasNames k (Suc ii) jac' (indicies[ii := indx])))
      else Inr (True, jac, indicies))"
  by pat_completeness auto
termination
  by (relation "measure (\<lambda>(jn, bn, k, ii, jac, idx). k - ii)") auto

declare nullspaceBias_loop.simps [simp del]

definition nullspaceBiasTask ::
  "('a::{zero,one}) SNS_IK \<Rightarrow> 'a list \<Rightarrow> string list \<Rightarrow> 'a MatrixD \<Rightarrow> nat list
     \<Rightarrow> error + (bool \<times> 'a MatrixD \<times> nat list)" where
  "nullspaceBiasTask s q_bias biasNames jac0 indicies0 =
     (if length q_bias \<noteq> length biasNames then Inr (False, jac0, indicies0)
      else
        nullspaceBias_loop (m_jointNames s) biasNames (length q_bias) 0
          (MatrixD_Zero (length (m_jointNames s)) (length q_bias))
          (vector_resize (length q_bias) 0 indicies0))"

section \<open>\<open>SNS_IK::setVelocitySolveType\<close>\<close>

text \<open>The switch: the class instantiated for each enumerator, none in the default branch.\<close>

fun new_velocity_solver :: "VelocitySolveType \<Rightarrow> nat \<Rightarrow> 'a \<Rightarrow> 'a VelocitySolver option" where
  "new_velocity_solver SNS_OptimalScaleMargin n looprate =
     Some \<lparr>solver_class = OSNS_sm_VelocityIK, solver_dof = n, solver_loop_period = looprate,
           solver_capabilities = None, solver_usePositionLimits = None\<rparr>"
| "new_velocity_solver SNS_Optimal n looprate =
     Some \<lparr>solver_class = OSNSVelocityIK, solver_dof = n, solver_loop_period = looprate,
           solver_capabilities = None, solver_usePositionLimits = None\<rparr>"
| "new_velocity_solver SNS_Fast n looprate =
     Some \<lparr>solver_class = FSNSVelocityIK, solver_dof = n, solver_loop_period = looprate,
           solver_capabilities = None, solver_usePositionLimits = None\<rparr>"
| "new_velocity_solver SNS_FastOptimal n looprate =
     Some \<lparr>solver_class = FOSNSVelocityIK, solver_dof = n, solver_loop_period = looprate,
           solver_capabilities = None, solver_usePositionLimits = None\<rparr>"
| "new_velocity_solver SNS n looprate =
     Some \<lparr>solver_class = SNSVelocityIK, solver_dof = n, solver_loop_period = looprate,
           solver_capabilities = None, solver_usePositionLimits = None\<rparr>"
| "new_velocity_solver (SNS_Unrecognized v) n looprate = None"

definition setJointsCapabilities ::
  "'a list \<Rightarrow> 'a list \<Rightarrow> 'a list \<Rightarrow> 'a list \<Rightarrow> 'a VelocitySolver \<Rightarrow> 'a VelocitySolver" where
  "setJointsCapabilities lo hi vel acc solver = solver\<lparr>solver_capabilities := Some (lo, hi, vel, acc)\<rparr>"

definition usePositionLimits :: "bool \<Rightarrow> 'a VelocitySolver \<Rightarrow> 'a VelocitySolver" where
  "usePositionLimits b solver = solver\<lparr>solver_usePositionLimits := Some b\<rparr>"

definition setVelocitySolveType :: "VelocitySolveType \<Rightarrow> 'a SNS_IK \<Rightarrow> bool \<times> 'a SNS_IK" where
  "setVelocitySolveType type s =
     (if m_solvetype s \<noteq> type \<or> m_ik_vel_solver s = None then
        (case new_velocity_solver type (getNrOfJoints (m_chain s)) (m_looprate s) of
           None \<Rightarrow> (False, s)
         | Some created \<Rightarrow>
             (let solver =
                    usePositionLimits False
                      (setJointsCapabilities (m_lower_bounds s) (m_upper_bounds s)
                         (m_velocity s) (m_acceleration s) created)
              in (True,
                  s\<lparr>m_ik_vel_solver := Some solver,
                    m_ik_pos_solver :=
                      Some \<lparr>pos_chain = m_chain s, pos_velocity_ik = solver, pos_eps = m_eps s\<rparr>,
                    m_solvetype := type,
                    m_initialized := True\<rparr>)))
      else (False, s))"

section \<open>\<open>SNS_IK::initialize\<close> and the constructor from explicit arrays\<close>

text \<open>\<open>std::numeric_limits<float>::max()\<close> and \<open>lowest()\<close>, which is its negation.\<close>

definition FLT_MAX :: "'a::numeral" where
  "FLT_MAX = 340282346638528859811704183484516925440"

definition FLT_LOWEST :: "'a::{numeral,uminus}" where
  "FLT_LOWEST = - FLT_MAX"

text \<open>
  The loop that fills \<open>m_types\<close>, over the segments still to visit. The bounds are read
  at the index \<open>m_types.size()\<close>; the lower bound is read only when the test of the
  upper bound holds, as \<open>&&\<close> evaluates.
\<close>

fun classify_loop :: "Segment list \<Rightarrow> ('a::{ord,numeral,uminus}) SNS_IK \<Rightarrow> error + 'a SNS_IK" where
  "classify_loop [] s = Inr s"
| "classify_loop (seg # segs) s =
     (let type = getTypeName (segment_joint seg) in
      if string_contains type ''Rot'' then
        (case VectorD_at (m_upper_bounds s) (length (m_types s)) of
           Inl e \<Rightarrow> Inl e
         | Inr ub \<Rightarrow>
             if ub \<ge> FLT_MAX then
               (case VectorD_at (m_lower_bounds s) (length (m_types s)) of
                  Inl e \<Rightarrow> Inl e
                | Inr lb \<Rightarrow>
                    if lb \<le> FLT_LOWEST
                    then classify_loop segs (s\<lparr>m_types := m_types s @ [Continuous]\<rparr>)
                    else classify_loop segs (s\<lparr>m_types := m_types s @ [Revolute]\<rparr>))
             else classify_loop segs (s\<lparr>m_types := m_types s @ [Revolute]\<rparr>))
      else if string_contains type ''Trans'' then
        classify_loop segs (s\<lparr>m_types := m_types s @ [Prismatic]\<rparr>)
      else classify_loop segs s)"

definition initialize :: "('a::{ord,numeral,uminus}) SNS_IK \<Rightarrow> error + (bool \<times> 'a SNS_IK)" where
  "initialize s =
     (if getNrOfJoints (m_chain s) \<noteq> length (m_lower_bounds s) then Inr (False, s)
      else if getNrOfJoints (m_chain s) \<noteq> length (m_upper_bounds s) then Inr (False, s)
      else if getNrOfJoints (m_chain s) \<noteq> length (m_velocity s) then Inr (False, s)
      else if getNrOfJoints (m_chain s) \<noteq> length (m_acceleration s) then Inr (False, s)
      else if getNrOfJoints (m_chain s) \<noteq> length (m_jointNames s) then Inr (False, s)
      else if length (m_jointNames s) = 0 then Inr (False, s)
      else
        (case classify_loop (segments (m_chain s)) s of
           Inl e \<Rightarrow> Inl e
         | Inr s1 \<Rightarrow>
             if length (m_types s1) \<noteq> length (m_lower_bounds s1) then Inr (False, s1)
             else
               (let s2 = s1\<lparr>m_jacobianSolver := Some (m_chain s1)\<rparr> in
                case setVelocitySolveType (m_solvetype s2) s2 of
                  (ok, s3) \<Rightarrow> if \<not> ok then Inr (False, s3) else Inr (True, s3))))"

text \<open>
  The second constructor: the member initialisers, then \<open>initialize\<close>, whose flag only
  decides whether a message is logged. The result is the constructed instance.
\<close>

definition SNS_IK_members ::
  "Chain \<Rightarrow> 'a list \<Rightarrow> 'a list \<Rightarrow> 'a list \<Rightarrow> 'a list \<Rightarrow> string list \<Rightarrow> 'a \<Rightarrow> 'a
     \<Rightarrow> VelocitySolveType \<Rightarrow> ('a::one) SNS_IK" where
  "SNS_IK_members chain q_min q_max v_max a_max jointNames looprate eps type =
     \<lparr>m_initialized = False, m_eps = eps, m_looprate = looprate, m_nullspaceGain = 1,
      m_solvetype = type, m_chain = chain, m_lower_bounds = q_min, m_upper_bounds = q_max,
      m_velocity = v_max, m_acceleration = a_max, m_jointNames = jointNames, m_types = [],
      m_jacobianSolver = None, m_ik_vel_solver = None, m_ik_pos_solver = None\<rparr>"

definition SNS_IK_new ::
  "Chain \<Rightarrow> 'a list \<Rightarrow> 'a list \<Rightarrow> 'a list \<Rightarrow> 'a list \<Rightarrow> string list \<Rightarrow> 'a \<Rightarrow> 'a
     \<Rightarrow> VelocitySolveType \<Rightarrow> error + ('a::{ord,numeral,uminus}) SNS_IK" where
  "SNS_IK_new chain q_min q_max v_max a_max jointNames looprate eps type =
     (case initialize (SNS_IK_members chain q_min q_max v_max a_max jointNames looprate eps type) of
        Inl e \<Rightarrow> Inl e
      | Inr (ok, s) \<Rightarrow> Inr s)"

section \<open>\<open>SNS_IK::CartToJnt\<close> and \<open>SNS_IK::CartToJntVel\<close>\<close>

text \<open>
  The solvers and the Jacobian computation are called, not defined, in this file: they
  are the fields of \<open>Collaborators\<close>. \<open>JntToJac_values\<close> is the Jacobian KDL computes,
  \<open>None\<close> when it reports a negative code; the other three return the integer code and
  the content of the output array.
\<close>

record 'a Collaborators =
  JntToJac_values :: "Chain \<Rightarrow> 'a list \<Rightarrow> 'a MatrixD option"
  getJointVelocity :: "'a VelocitySolver \<Rightarrow> 'a Task list \<Rightarrow> 'a list \<Rightarrow> int \<times> 'a list"
  posCartToJnt :: "'a SNSPositionIK \<Rightarrow> 'a list \<Rightarrow> 'a Frame \<Rightarrow> 'a Twist \<Rightarrow> int \<times> 'a list"
  posCartToJntBias ::
    "'a SNSPositionIK \<Rightarrow> 'a list \<Rightarrow> 'a Frame \<Rightarrow> 'a list \<Rightarrow> 'a MatrixD \<Rightarrow> nat list \<Rightarrow> 'a
       \<Rightarrow> 'a Twist \<Rightarrow> int \<times> 'a list"

text \<open>
  \<open>KDL::ChainJntToJacSolver::JntToJac\<close>, a function of the KDL library, rejects a joint
  array whose size is not the chain's joint count before it computes anything; what it
  computes otherwise is the collaborator's \<open>JntToJac_values\<close>. The solver object holds
  the chain it was constructed with.
\<close>

definition JntToJac ::
  "(Chain \<Rightarrow> 'a list \<Rightarrow> 'a MatrixD option) \<Rightarrow> Chain \<Rightarrow> 'a list \<Rightarrow> 'a MatrixD option" where
  "JntToJac values chain q_in =
     (if length q_in \<noteq> getNrOfJoints chain then None else values chain q_in)"

definition MatrixD_empty :: "'a MatrixD" where
  "MatrixD_empty = \<lparr>mat_rows = 0, mat_cols = 0, mat_data = []\<rparr>"

text \<open>
  What a call does before it returns: it returns \<open>-1\<close> at one of its checks, or it hands
  its arguments to a solver.
\<close>

datatype 'a PosCall =
  PosNotInitialized
  | PosBiasTaskFailed
  | PosSolveBias "'a SNSPositionIK" "'a list" "'a Frame" "'a list" "'a MatrixD" "nat list" 'a "'a Twist"
  | PosSolve "'a SNSPositionIK" "'a list" "'a Frame" "'a Twist"

definition CartToJnt_call ::
  "('a::{zero,one}) SNS_IK \<Rightarrow> 'a list \<Rightarrow> 'a Frame \<Rightarrow> 'a list \<Rightarrow> string list \<Rightarrow> 'a Twist
     \<Rightarrow> error + 'a PosCall" where
  "CartToJnt_call s q_init p_in q_bias biasNames bounds =
     (if \<not> m_initialized s then Inr PosNotInitialized
      else if length q_bias \<noteq> 0 then
        (case nullspaceBiasTask s q_bias biasNames MatrixD_empty [] of
           Inl e \<Rightarrow> Inl e
         | Inr (ok, ns_jacobian, indicies) \<Rightarrow>
             if \<not> ok then Inr PosBiasTaskFailed
             else
               (case m_ik_pos_solver s of
                  None \<Rightarrow> Inl NullPointerDereference
                | Some solver \<Rightarrow>
                    Inr (PosSolveBias solver q_init p_in q_bias ns_jacobian indicies
                           (m_nullspaceGain s) bounds)))
      else
        (case m_ik_pos_solver s of
           None \<Rightarrow> Inl NullPointerDereference
         | Some solver \<Rightarrow> Inr (PosSolve solver q_init p_in bounds)))"

definition CartToJnt ::
  "'a Collaborators \<Rightarrow> ('a::{zero,one}) SNS_IK \<Rightarrow> 'a list \<Rightarrow> 'a Frame \<Rightarrow> 'a list \<Rightarrow> string list
     \<Rightarrow> 'a list \<Rightarrow> 'a Twist \<Rightarrow> error + (int \<times> 'a list)" where
  "CartToJnt c s q_init p_in q_bias biasNames q_out bounds =
     (case CartToJnt_call s q_init p_in q_bias biasNames bounds of
        Inl e \<Rightarrow> Inl e
      | Inr PosNotInitialized \<Rightarrow> Inr (- 1, q_out)
      | Inr PosBiasTaskFailed \<Rightarrow> Inr (- 1, q_out)
      | Inr (PosSolveBias solver qi p qb jac idx gain b) \<Rightarrow>
          Inr (posCartToJntBias c solver qi p qb jac idx gain b)
      | Inr (PosSolve solver qi p b) \<Rightarrow> Inr (posCartToJnt c solver qi p b))"

text \<open>The loop that fills the desired velocity of the bias task, from \<open>ii\<close> upwards.\<close>

function nullspaceVelocity_loop ::
  "('a::{times,minus,inverse}) \<Rightarrow> 'a \<Rightarrow> 'a list \<Rightarrow> 'a list \<Rightarrow> nat list \<Rightarrow> nat \<Rightarrow> 'a list
     \<Rightarrow> error + 'a list" where
  "nullspaceVelocity_loop gain looprate q_bias q_in indicies ii desired_v =
     (if ii < length q_bias then
        (case VectorD_at q_in (indicies ! ii) of
           Inl e \<Rightarrow> Inl e
         | Inr q \<Rightarrow>
             nullspaceVelocity_loop gain looprate q_bias q_in indicies (Suc ii)
               (desired_v[ii := gain * (q_bias ! ii - q) / looprate]))
      else Inr desired_v)"
  by pat_completeness auto
termination
  by (relation "measure (\<lambda>(g, l, qb, qi, idx, ii, d). length qb - ii)") auto

declare nullspaceVelocity_loop.simps [simp del]

datatype 'a VelCall =
  VelNotInitialized
  | VelJacobianFailed
  | VelBiasTaskFailed
  | VelSolve "'a VelocitySolver" "'a Task list" "'a list"

definition primary_task :: "'a MatrixD \<Rightarrow> 'a Twist \<Rightarrow> 'a Task" where
  "primary_task jac v_in =
     \<lparr>jacobian = jac,
      desired = [Twist_at v_in 0, Twist_at v_in 1, Twist_at v_in 2,
                 Twist_at v_in 3, Twist_at v_in 4, Twist_at v_in 5]\<rparr>"

definition CartToJntVel_call ::
  "'a Collaborators \<Rightarrow> ('a::{zero,one,times,minus,inverse}) SNS_IK \<Rightarrow> 'a list \<Rightarrow> 'a Twist
     \<Rightarrow> 'a list \<Rightarrow> string list \<Rightarrow> error + 'a VelCall" where
  "CartToJntVel_call c s q_in v_in q_bias biasNames =
     (if \<not> m_initialized s then Inr VelNotInitialized
      else
        (case m_jacobianSolver s of
           None \<Rightarrow> Inl NullPointerDereference
         | Some solver_chain \<Rightarrow>
             (case JntToJac (JntToJac_values c) solver_chain q_in of
                None \<Rightarrow> Inr VelJacobianFailed
              | Some jac \<Rightarrow>
                  (let sot = [primary_task jac v_in] in
                   if length q_bias \<noteq> 0 then
                     (case nullspaceBiasTask s q_bias biasNames MatrixD_empty [] of
                        Inl e \<Rightarrow> Inl e
                      | Inr (ok, jac2, indicies) \<Rightarrow>
                          if \<not> ok then Inr VelBiasTaskFailed
                          else
                            (case nullspaceVelocity_loop (m_nullspaceGain s) (m_looprate s)
                                    q_bias q_in indicies 0 (replicate (length q_bias) 0) of
                               Inl e \<Rightarrow> Inl e
                             | Inr d \<Rightarrow>
                                 (case m_ik_vel_solver s of
                                    None \<Rightarrow> Inl NullPointerDereference
                                  | Some solver \<Rightarrow>
                                      Inr (VelSolve solver
                                             (sot @ [\<lparr>jacobian = jac2, desired = d\<rparr>]) q_in))))
                   else
                     (case m_ik_vel_solver s of
                        None \<Rightarrow> Inl NullPointerDereference
                      | Some solver \<Rightarrow> Inr (VelSolve solver sot q_in))))))"

definition CartToJntVel ::
  "'a Collaborators \<Rightarrow> ('a::{zero,one,times,minus,inverse}) SNS_IK \<Rightarrow> 'a list \<Rightarrow> 'a Twist
     \<Rightarrow> 'a list \<Rightarrow> string list \<Rightarrow> 'a list \<Rightarrow> error + (int \<times> 'a list)" where
  "CartToJntVel c s q_in v_in q_bias biasNames qdot_out =
     (case CartToJntVel_call c s q_in v_in q_bias biasNames of
        Inl e \<Rightarrow> Inl e
      | Inr VelNotInitialized \<Rightarrow> Inr (- 1, qdot_out)
      | Inr VelJacobianFailed \<Rightarrow> Inr (- 1, qdot_out)
      | Inr VelBiasTaskFailed \<Rightarrow> Inr (- 1, qdot_out)
      | Inr (VelSolve solver sot q) \<Rightarrow> Inr (getJointVelocity c solver sot q))"

section \<open>Instances and sequences of public calls\<close>





text \<open>
  The instances a program can hold: what the constructor builds, and what
  \<open>setVelocitySolveType\<close> makes of an instance. (The constructor that reads a robot
  description fills the same members from the description and ends in the same
  \<open>initialize\<close>; the description and the parameter server are not modelled.)
\<close>

inductive SNS_IK_instance :: "('a::{ord,numeral,uminus}) SNS_IK \<Rightarrow> bool" where
  constructed:
    "SNS_IK_new chain q_min q_max v_max a_max jointNames looprate eps type = Inr s
       \<Longrightarrow> SNS_IK_instance s"
| solver_set:
    "SNS_IK_instance s \<Longrightarrow> setVelocitySolveType type s = (ok, s') \<Longrightarrow> SNS_IK_instance s'"

text \<open>The tags for which the switch creates a solver.\<close>

fun recognized :: "VelocitySolveType \<Rightarrow> bool" where
  "recognized (SNS_Unrecognized v) = False"
| "recognized type = True"

text \<open>The joints the classification loop gives a type: the segments it pushes for.\<close>

definition is_rotational :: "Segment \<Rightarrow> bool" where
  "is_rotational seg = string_contains (getTypeName (segment_joint seg)) ''Rot''"

definition is_translational :: "Segment \<Rightarrow> bool" where
  "is_translational seg = string_contains (getTypeName (segment_joint seg)) ''Trans''"

definition classified_joints :: "Chain \<Rightarrow> nat" where
  "classified_joints c =
     length (filter (\<lambda>seg. is_rotational seg \<or> is_translational seg) (segments c))"

section \<open>Example instances\<close>

definition example_segment :: "string \<Rightarrow> KDL_JointType \<Rightarrow> Segment" where
  "example_segment n t = \<lparr>segment_name = n, segment_joint = \<lparr>joint_name = n, joint_type = t\<rparr>\<rparr>"

text \<open>A fixed base, a rotational joint, a translational joint, a rotational joint.\<close>

definition example_chain :: Chain where
  "example_chain =
     \<lparr>segments = [example_segment ''base'' JointNone, example_segment ''j1'' RotZ,
                  example_segment ''j2'' TransX, example_segment ''j3'' RotZ]\<rparr>"

definition example_solver :: "real VelocitySolver" where
  "example_solver =
     \<lparr>solver_class = SNSVelocityIK, solver_dof = 3, solver_loop_period = 100,
      solver_capabilities = Some ([- 3, 0, FLT_LOWEST], [3, 1, FLT_MAX], [2, 2, 2], [5, 5, 5]),
      solver_usePositionLimits = Some False\<rparr>"

definition example_instance :: "real SNS_IK" where
  "example_instance =
     \<lparr>m_initialized = True, m_eps = 1 / 1000, m_looprate = 100, m_nullspaceGain = 1,
      m_solvetype = SNS, m_chain = example_chain,
      m_lower_bounds = [- 3, 0, FLT_LOWEST], m_upper_bounds = [3, 1, FLT_MAX],
      m_velocity = [2, 2, 2], m_acceleration = [5, 5, 5],
      m_jointNames = [''j1'', ''j2'', ''j3''],
      m_types = [Revolute, Prismatic, Continuous],
      m_jacobianSolver = Some example_chain,
      m_ik_vel_solver = Some example_solver,
      m_ik_pos_solver =
        Some \<lparr>pos_chain = example_chain, pos_velocity_ik = example_solver, pos_eps = 1 / 1000\<rparr>\<rparr>"


text \<open>
  Collaborators for the examples: a Jacobian of zeros with six rows, and solvers that
  report success with joint values of zero.
\<close>

definition example_collaborators :: "real Collaborators" where
  "example_collaborators =
     \<lparr>JntToJac_values = (\<lambda>chain q. Some (MatrixD_Zero 6 (length q))),
      getJointVelocity = (\<lambda>solver sot q. (1, map (\<lambda>x. 0) q)),
      posCartToJnt = (\<lambda>solver q p b. (1, q)),
      posCartToJntBias = (\<lambda>solver q p qb jac idx gain b. (1, q))\<rparr>"

definition example_twist :: "real Twist" where
  "example_twist = \<lparr>twist_vel = Vector3 0 0 (1 / 10), twist_rot = Vector3 0 0 0\<rparr>"

definition example_frame :: "real Frame" where
  "example_frame = \<lparr>frame_M = [1, 0, 0, 0, 1, 0, 0, 0, 1], frame_p = Vector3 0 0 1\<rparr>"

text \<open>The six-joint chain \<open>j1\<close>, ..., \<open>j6\<close> of revolute joints, and its instance.\<close>

definition example_names6 :: "string list" where
  "example_names6 = [''j1'', ''j2'', ''j3'', ''j4'', ''j5'', ''j6'']"

definition example_chain6 :: Chain where
  "example_chain6 = \<lparr>segments = map (\<lambda>n. example_segment n RotZ) example_names6\<rparr>"

definition example_instance6 :: "real SNS_IK" where
  "example_instance6 =
     \<lparr>m_initialized = True, m_eps = 1 / 1000, m_looprate = 100, m_nullspaceGain = 1,
      m_solvetype = SNS, m_chain = example_chain6,
      m_lower_bounds = replicate 6 (- 3), m_upper_bounds = replicate 6 3,
      m_velocity = replicate 6 2, m_acceleration = replicate 6 5,
      m_jointNames = example_names6,
      m_types = replicate 6 Revolute,
      m_jacobianSolver = Some example_chain6,
      m_ik_vel_solver =
        Some \<lparr>solver_class = SNSVelocityIK, solver_dof = 6, solver_loop_period = 100,
              solver_capabilities =
                Some (replicate 6 (- 3), replicate 6 3, replicate 6 2, replicate 6 5),
              solver_usePositionLimits = Some False\<rparr>,
      m_ik_pos_solver =
        Some \<lparr>pos_chain = example_chain6,
              pos_velocity_ik =
                \<lparr>solver_class = SNSVelocityIK, solver_dof = 6, solver_loop_period = 100,
                 solver_capabilities =
                   Some (replicate 6 (- 3), replicate 6 3, replicate 6 2, replicate 6 5),
                 solver_usePositionLimits = Some False\<rparr>,
              pos_eps = 1 / 1000\<rparr>\<rparr>"

section \<open>Facts about the model\<close>

lemma getTypeName_Rot:
  "string_contains (getTypeName j) ''Rot'' = (joint_type j \<in> {RotAxis, RotX, RotY, RotZ})"
  by (cases "joint_type j"; simp)

lemma getTypeName_Trans:
  "string_contains (getTypeName j) ''Trans'' = (joint_type j \<in> {TransAxis, TransX, TransY, TransZ})"
  by (cases "joint_type j"; simp)

lemma example_instance_new:
  "SNS_IK_new example_chain [- 3, 0, FLT_LOWEST] [3, 1, FLT_MAX] [2, 2, 2] [5, 5, 5]
     [''j1'', ''j2'', ''j3''] 100 (1 / 1000) SNS = Inr example_instance"
  by (simp add: SNS_IK_new_def SNS_IK_members_def initialize_def example_chain_def example_segment_def
      getNrOfJoints_def is_movable_def VectorD_at_def FLT_LOWEST_def FLT_MAX_def setVelocitySolveType_def
      example_instance_def example_solver_def setJointsCapabilities_def usePositionLimits_def Let_def)


lemma std_find_le: "std_find xs x \<le> length xs"
  by (induction xs) auto


lemma std_find_nth: "x \<in> set xs \<Longrightarrow> xs ! std_find xs x = x"
  by (induction xs) auto

lemma std_find_first: "i < std_find xs x \<Longrightarrow> xs ! i \<noteq> x"
proof (induction xs arbitrary: i)
  case Nil
  then show ?case by simp
next
  case (Cons y ys)
  then show ?case by (cases i) (auto split: if_splits)
qed

lemma nullspaceBias_loop_True:
  "nullspaceBias_loop jn bn k ii jac idx = Inr (True, jac', idx') \<Longrightarrow>
     length idx' = length idx \<and>
     (\<forall>i. ii \<le> i \<and> i < k \<and> i < length idx \<longrightarrow>
        idx' ! i = std_find jn (bn ! i) \<and> std_find jn (bn ! i) < length jn) \<and>
     (\<forall>i < ii. idx' ! i = idx ! i)"
proof (induction jn bn k ii jac idx rule: nullspaceBias_loop.induct)
  case (1 jn bn k ii jac idx)
  show ?case
  proof (cases "ii < k")
    case False
    with "1.prems" show ?thesis
      by (auto simp: nullspaceBias_loop.simps [of jn bn k ii])
  next
    case True
    define indx where "indx = std_find jn (bn ! ii)"
    from True "1.prems" have found: "indx \<noteq> length jn"
      by (auto simp: nullspaceBias_loop.simps [of jn bn k ii] indx_def Let_def split: if_splits)
    with std_find_le [of jn "bn ! ii"] have less: "indx < length jn"
      by (simp add: indx_def)
    from True "1.prems" found obtain jac2 where
      set: "MatrixD_set jac ii indx 1 = Inr jac2" and
      rest: "nullspaceBias_loop jn bn k (Suc ii) jac2 (idx[ii := indx]) = Inr (True, jac', idx')"
      by (auto simp: nullspaceBias_loop.simps [of jn bn k ii] indx_def Let_def split: sum.splits)
    from "1.IH" [OF True indx_def found set rest]
    have len: "length idx' = length idx"
      and later: "\<And>i. Suc ii \<le> i \<Longrightarrow> i < k \<Longrightarrow> i < length idx \<Longrightarrow>
                    idx' ! i = std_find jn (bn ! i) \<and> std_find jn (bn ! i) < length jn"
      and earlier: "\<And>i. i < Suc ii \<Longrightarrow> idx' ! i = idx[ii := indx] ! i"
      by auto
    have here: "ii < length idx \<Longrightarrow> idx' ! ii = indx"
      using earlier [of ii] by simp
    have "\<And>i. ii \<le> i \<Longrightarrow> i < k \<Longrightarrow> i < length idx \<Longrightarrow>
            idx' ! i = std_find jn (bn ! i) \<and> std_find jn (bn ! i) < length jn"
    proof -
      fix i assume "ii \<le> i" "i < k" "i < length idx"
      then show "idx' ! i = std_find jn (bn ! i) \<and> std_find jn (bn ! i) < length jn"
        using later [of i] here less by (cases "i = ii") (auto simp: indx_def)
    qed
    moreover have "\<And>i. i < ii \<Longrightarrow> idx' ! i = idx ! i"
      using earlier by (simp add: less_Suc_eq)
    ultimately show ?thesis using len by blast
  qed
qed

lemma nullspaceVelocity_loop_Inr:
  "nullspaceVelocity_loop g l qb qi idx ii d = Inr d' \<Longrightarrow>
     length d' = length d \<and>
     (\<forall>i. ii \<le> i \<and> i < length qb \<and> i < length d \<longrightarrow>
        idx ! i < length qi \<and> d' ! i = g * (qb ! i - qi ! (idx ! i)) / l) \<and>
     (\<forall>i < ii. d' ! i = d ! i)"
proof (induction g l qb qi idx ii d rule: nullspaceVelocity_loop.induct)
  case (1 g l qb qi idx ii d)
  show ?case
  proof (cases "ii < length qb")
    case False
    with "1.prems" show ?thesis
      by (auto simp: nullspaceVelocity_loop.simps [of g l qb qi idx ii])
  next
    case True
    from True "1.prems" have inb: "idx ! ii < length qi"
      by (auto simp: nullspaceVelocity_loop.simps [of g l qb qi idx ii] VectorD_at_def split: if_splits)
    then have rd: "VectorD_at qi (idx ! ii) = Inr (qi ! (idx ! ii))"
      by (simp add: VectorD_at_def)
    from True "1.prems" rd have
      rest: "nullspaceVelocity_loop g l qb qi idx (Suc ii)
               (d[ii := g * (qb ! ii - qi ! (idx ! ii)) / l]) = Inr d'"
      by (simp add: nullspaceVelocity_loop.simps [of g l qb qi idx ii])
    from "1.IH" [OF True rd rest]
    have len: "length d' = length d"
      and later: "\<And>i. Suc ii \<le> i \<Longrightarrow> i < length qb \<Longrightarrow> i < length d \<Longrightarrow>
                    idx ! i < length qi \<and> d' ! i = g * (qb ! i - qi ! (idx ! i)) / l"
      and earlier: "\<And>i. i < Suc ii \<Longrightarrow> d' ! i = d[ii := g * (qb ! ii - qi ! (idx ! ii)) / l] ! i"
      by auto
    have here: "ii < length d \<Longrightarrow> d' ! ii = g * (qb ! ii - qi ! (idx ! ii)) / l"
      using earlier [of ii] by simp
    have "\<And>i. ii \<le> i \<Longrightarrow> i < length qb \<Longrightarrow> i < length d \<Longrightarrow>
            idx ! i < length qi \<and> d' ! i = g * (qb ! i - qi ! (idx ! i)) / l"
    proof -
      fix i assume "ii \<le> i" "i < length qb" "i < length d"
      then show "idx ! i < length qi \<and> d' ! i = g * (qb ! i - qi ! (idx ! i)) / l"
        using later [of i] here inb by (cases "i = ii") auto
    qed
    moreover have "\<And>i. i < ii \<Longrightarrow> d' ! i = d ! i"
      using earlier by (simp add: less_Suc_eq)
    ultimately show ?thesis using len by blast
  qed
qed

lemma nullspaceVelocity_loop_total:
  "(\<forall>i. ii \<le> i \<and> i < length qb \<longrightarrow> idx ! i < length qi) \<Longrightarrow>
     \<exists>d'. nullspaceVelocity_loop g l qb qi idx ii d = Inr d'"
proof (induction g l qb qi idx ii d rule: nullspaceVelocity_loop.induct)
  case (1 g l qb qi idx ii d)
  show ?case
  proof (cases "ii < length qb")
    case False
    then show ?thesis
      by (simp add: nullspaceVelocity_loop.simps [of g l qb qi idx ii])
  next
    case True
    with "1.prems" have rd: "VectorD_at qi (idx ! ii) = Inr (qi ! (idx ! ii))"
      by (simp add: VectorD_at_def)
    from "1.prems" have "\<forall>i. Suc ii \<le> i \<and> i < length qb \<longrightarrow> idx ! i < length qi"
      by simp
    from "1.IH" [OF True rd this] True rd show ?thesis
      by (simp add: nullspaceVelocity_loop.simps [of g l qb qi idx ii])
  qed
qed

lemma nullspaceBiasTask_True:
  assumes "nullspaceBiasTask s q_bias biasNames jac0 idx0 = Inr (True, jac, idx)"
  shows "length q_bias = length biasNames \<and> length idx = length q_bias \<and>
         (\<forall>i < length q_bias. idx ! i = std_find (m_jointNames s) (biasNames ! i) \<and>
                              idx ! i < length (m_jointNames s))"
proof -
  from assms have len: "length q_bias = length biasNames"
    by (auto simp: nullspaceBiasTask_def split: if_splits)
  with assms have loop:
    "nullspaceBias_loop (m_jointNames s) biasNames (length q_bias) 0
       (MatrixD_Zero (length (m_jointNames s)) (length q_bias))
       (vector_resize (length q_bias) 0 idx0) = Inr (True, jac, idx)"
    by (simp add: nullspaceBiasTask_def)
  have "length (vector_resize (length q_bias) 0 idx0) = length q_bias"
    by (simp add: vector_resize_def)
  with nullspaceBias_loop_True [OF loop] len show ?thesis
    by auto
qed

lemma CartToJntVel_call_bias:
  assumes "CartToJntVel_call c s q_in v_in q_bias biasNames = Inr (VelSolve solver sot q)"
    and "q_bias \<noteq> []"
  shows "\<exists>ch jac jac2 idx d.
           m_initialized s \<and> m_jacobianSolver s = Some ch \<and>
           JntToJac (JntToJac_values c) ch q_in = Some jac \<and>
           nullspaceBiasTask s q_bias biasNames MatrixD_empty [] = Inr (True, jac2, idx) \<and>
           nullspaceVelocity_loop (m_nullspaceGain s) (m_looprate s) q_bias q_in idx 0
             (replicate (length q_bias) 0) = Inr d \<and>
           m_ik_vel_solver s = Some solver \<and> q = q_in \<and>
           sot = [primary_task jac v_in, \<lparr>jacobian = jac2, desired = d\<rparr>]"
  using assms
  by (auto simp: CartToJntVel_call_def Let_def
      split: if_splits option.splits sum.splits prod.splits)

lemma example_bias_call:
  "CartToJntVel_call example_collaborators example_instance [1, 0, 0] example_twist [3] [''j1'']
     = Inr (VelSolve example_solver
             [primary_task (MatrixD_Zero 6 3) example_twist,
              \<lparr>jacobian = \<lparr>mat_rows = 3, mat_cols = 1, mat_data = [1, 0, 0]\<rparr>,
               desired = [1 / 50]\<rparr>] [1, 0, 0])"
  by (simp add: CartToJntVel_call_def example_instance_def example_collaborators_def JntToJac_def
      example_chain_def example_segment_def getNrOfJoints_def is_movable_def nullspaceBiasTask_def
      vector_resize_def MatrixD_Zero_def nullspaceBias_loop.simps MatrixD_set_def
      nullspaceVelocity_loop.simps VectorD_at_def Let_def numeral_3_eq_3)

lemma example_velocity_solve:
  "CartToJntVel example_collaborators example_instance [0, 0, 0] example_twist [] [] []
     = Inr (1, [0, 0, 0])"
  by (simp add: CartToJntVel_def CartToJntVel_call_def example_instance_def
      example_collaborators_def JntToJac_def example_chain_def example_segment_def
      getNrOfJoints_def is_movable_def)

lemma example_empty_values_call:
  "CartToJntVel_call example_collaborators example_instance [0, 0, 0] example_twist [] [''j9'', ''j1'']
     = Inr (VelSolve example_solver [primary_task (MatrixD_Zero 6 3) example_twist] [0, 0, 0])"
  by (simp add: CartToJntVel_call_def example_instance_def example_collaborators_def JntToJac_def
      example_chain_def example_segment_def getNrOfJoints_def is_movable_def numeral_3_eq_3)





lemma setVelocitySolveType_recognized:
  "recognized type \<Longrightarrow> m_ik_vel_solver s = None \<Longrightarrow>
     \<exists>s'. setVelocitySolveType type s = (True, s') \<and> m_initialized s' \<and>
          m_ik_vel_solver s' \<noteq> None \<and> m_ik_pos_solver s' \<noteq> None \<and>
          m_types s' = m_types s \<and> m_jacobianSolver s' = m_jacobianSolver s"
  by (cases type) (auto simp: setVelocitySolveType_def Let_def)



lemma is_rotational_iff:
  "is_rotational seg = (joint_type (segment_joint seg) \<in> {RotAxis, RotX, RotY, RotZ})"
  by (simp only: is_rotational_def getTypeName_Rot)

lemma is_translational_iff:
  "is_translational seg = (joint_type (segment_joint seg) \<in> {TransAxis, TransX, TransY, TransZ})"
  by (simp only: is_translational_def getTypeName_Trans)

lemma is_movable_iff: "is_movable seg = (is_rotational seg \<or> is_translational seg)"
  by (cases "joint_type (segment_joint seg)")
    (simp_all add: is_movable_def is_rotational_iff is_translational_iff)

lemma rotational_not_translational: "is_rotational seg \<Longrightarrow> \<not> is_translational seg"
  by (auto simp: is_rotational_iff is_translational_iff)

lemma classified_joints_eq: "classified_joints c = getNrOfJoints c"
  by (simp add: classified_joints_def getNrOfJoints_def is_movable_iff [abs_def])

lemma classify_loop_step:
  "classify_loop (seg # segs) s =
     (if is_rotational seg then
        (case VectorD_at (m_upper_bounds s) (length (m_types s)) of
           Inl e \<Rightarrow> Inl e
         | Inr ub \<Rightarrow>
             if ub \<ge> FLT_MAX then
               (case VectorD_at (m_lower_bounds s) (length (m_types s)) of
                  Inl e \<Rightarrow> Inl e
                | Inr lb \<Rightarrow>
                    if lb \<le> FLT_LOWEST
                    then classify_loop segs (s\<lparr>m_types := m_types s @ [Continuous]\<rparr>)
                    else classify_loop segs (s\<lparr>m_types := m_types s @ [Revolute]\<rparr>))
             else classify_loop segs (s\<lparr>m_types := m_types s @ [Revolute]\<rparr>))
      else if is_translational seg then
        classify_loop segs (s\<lparr>m_types := m_types s @ [Prismatic]\<rparr>)
      else classify_loop segs s)"
  by (simp only: classify_loop.simps Let_def is_rotational_def is_translational_def)

lemma classify_loop_result:
  assumes "length (m_types s) + length (filter is_movable segs) \<le> length (m_upper_bounds s)"
    and "length (m_types s) + length (filter is_movable segs) \<le> length (m_lower_bounds s)"
  shows "\<exists>ts. classify_loop segs s = Inr (s\<lparr>m_types := m_types s @ ts\<rparr>) \<and>
           length ts = length (filter is_movable segs) \<and>
           (\<forall>j < length ts.
              ts ! j =
                (if is_rotational (filter is_movable segs ! j) then
                   (if m_upper_bounds s ! (length (m_types s) + j) \<ge> FLT_MAX \<and>
                       m_lower_bounds s ! (length (m_types s) + j) \<le> FLT_LOWEST
                    then Continuous else Revolute)
                 else Prismatic))"
  using assms
proof (induction segs arbitrary: s)
  case Nil
  then show ?case by simp
next
  case (Cons seg segs)
  show ?case
  proof (cases "is_movable seg")
    case False
    then have no: "\<not> is_rotational seg" "\<not> is_translational seg"
      by (simp_all add: is_movable_iff)
    from Cons.IH [of s] Cons.prems False no show ?thesis
      by (simp only: classify_loop_step) simp
  next
    case True
    define n where "n = length (m_types s)"
    define t where "t =
      (if is_rotational seg then
         (if m_upper_bounds s ! n \<ge> FLT_MAX \<and> m_lower_bounds s ! n \<le> FLT_LOWEST
          then Continuous else Revolute)
       else Prismatic)"
    define s1 where "s1 = s\<lparr>m_types := m_types s @ [t]\<rparr>"
    from True Cons.prems have inb: "n < length (m_upper_bounds s)" "n < length (m_lower_bounds s)"
      by (simp_all add: n_def)
    from True have kind: "\<not> is_rotational seg \<Longrightarrow> is_translational seg"
      by (simp add: is_movable_iff)
    have step: "classify_loop (seg # segs) s = classify_loop segs s1"
      using inb kind
      by (simp only: classify_loop_step)
        (simp add: VectorD_at_def n_def [symmetric] t_def s1_def)
    have "length (m_types s1) + length (filter is_movable segs) \<le> length (m_upper_bounds s1)"
      and "length (m_types s1) + length (filter is_movable segs) \<le> length (m_lower_bounds s1)"
      using True Cons.prems by (simp_all add: s1_def)
    from Cons.IH [OF this] obtain ts where
      res: "classify_loop segs s1 = Inr (s1\<lparr>m_types := m_types s1 @ ts\<rparr>)" and
      len: "length ts = length (filter is_movable segs)" and
      each: "\<And>j. j < length ts \<Longrightarrow>
              ts ! j =
                (if is_rotational (filter is_movable segs ! j) then
                   (if m_upper_bounds s1 ! (length (m_types s1) + j) \<ge> FLT_MAX \<and>
                       m_lower_bounds s1 ! (length (m_types s1) + j) \<le> FLT_LOWEST
                    then Continuous else Revolute)
                 else Prismatic)"
      by blast
    have "classify_loop (seg # segs) s = Inr (s\<lparr>m_types := m_types s @ (t # ts)\<rparr>)"
      using step res by (simp add: s1_def)
    moreover have "length (t # ts) = length (filter is_movable (seg # segs))"
      using True len by simp
    moreover have "(t # ts) ! j =
        (if is_rotational (filter is_movable (seg # segs) ! j) then
           (if m_upper_bounds s ! (length (m_types s) + j) \<ge> FLT_MAX \<and>
               m_lower_bounds s ! (length (m_types s) + j) \<le> FLT_LOWEST
            then Continuous else Revolute)
         else Prismatic)" if "j < length (t # ts)" for j
    proof (cases j)
      case 0
      with True show ?thesis by (simp add: t_def n_def)
    next
      case (Suc k)
      with that have "k < length ts" by simp
      from each [OF this] Suc True show ?thesis
        by (simp add: s1_def)
    qed
    ultimately show ?thesis by blast
  qed
qed

lemma SNS_IK_new_unchecked:
  assumes "\<not> (length q_min = getNrOfJoints chain \<and> length q_max = getNrOfJoints chain \<and>
              length v_max = getNrOfJoints chain \<and> length a_max = getNrOfJoints chain \<and>
              length jointNames = getNrOfJoints chain \<and> getNrOfJoints chain \<noteq> 0)"
  shows "SNS_IK_new chain q_min q_max v_max a_max jointNames looprate eps type =
           Inr (SNS_IK_members chain q_min q_max v_max a_max jointNames looprate eps type)"
  using assms
  by (auto simp: SNS_IK_new_def initialize_def SNS_IK_members_def)

lemma SNS_IK_new_checked:
  assumes "length q_min = getNrOfJoints chain" and "length q_max = getNrOfJoints chain"
    and "length v_max = getNrOfJoints chain" and "length a_max = getNrOfJoints chain"
    and "length jointNames = getNrOfJoints chain" and "getNrOfJoints chain \<noteq> 0"
  shows "\<exists>ts. length ts = getNrOfJoints chain \<and>
           (\<forall>j < getNrOfJoints chain.
              ts ! j =
                (if is_rotational (filter is_movable (segments chain) ! j) then
                   (if q_max ! j \<ge> FLT_MAX \<and> q_min ! j \<le> FLT_LOWEST
                    then Continuous else Revolute)
                 else Prismatic)) \<and>
           SNS_IK_new chain q_min q_max v_max a_max jointNames looprate eps type =
             Inr (snd (setVelocitySolveType type
                    ((SNS_IK_members chain q_min q_max v_max a_max jointNames looprate eps type)
                       \<lparr>m_types := ts, m_jacobianSolver := Some chain\<rparr>)))"
proof -
  define s0 where "s0 = SNS_IK_members chain q_min q_max v_max a_max jointNames looprate eps type"
  have fields: "m_types s0 = []" "m_upper_bounds s0 = q_max" "m_lower_bounds s0 = q_min"
    "m_chain s0 = chain" "m_velocity s0 = v_max" "m_acceleration s0 = a_max"
    "m_jointNames s0 = jointNames" "m_solvetype s0 = type"
    by (simp_all add: s0_def SNS_IK_members_def)
  have "length (m_types s0) + length (filter is_movable (segments chain)) \<le> length (m_upper_bounds s0)"
    and "length (m_types s0) + length (filter is_movable (segments chain)) \<le> length (m_lower_bounds s0)"
    using assms(1,2) by (simp_all add: fields getNrOfJoints_def)
  from classify_loop_result [OF this] obtain ts where
    loop: "classify_loop (segments chain) s0 = Inr (s0\<lparr>m_types := ts\<rparr>)" and
    len: "length ts = getNrOfJoints chain" and
    each: "\<And>j. j < length ts \<Longrightarrow>
             ts ! j =
               (if is_rotational (filter is_movable (segments chain) ! j) then
                  (if q_max ! j \<ge> FLT_MAX \<and> q_min ! j \<le> FLT_LOWEST
                   then Continuous else Revolute)
                else Prismatic)"
    by (auto simp: fields getNrOfJoints_def)
  have "initialize s0 =
          (case setVelocitySolveType type (s0\<lparr>m_types := ts, m_jacobianSolver := Some chain\<rparr>) of
             (ok, s3) \<Rightarrow> Inr (ok, s3))"
    using assms loop len
    by (simp add: initialize_def fields Let_def split: prod.splits)
  then have "SNS_IK_new chain q_min q_max v_max a_max jointNames looprate eps type =
      Inr (snd (setVelocitySolveType type (s0\<lparr>m_types := ts, m_jacobianSolver := Some chain\<rparr>)))"
    by (simp add: SNS_IK_new_def s0_def [symmetric] split: prod.splits)
  with len each show ?thesis
    unfolding s0_def by auto
qed

lemma setVelocitySolveType_fresh:
  assumes "m_ik_vel_solver s = None"
  shows "m_initialized (snd (setVelocitySolveType type s)) = (m_initialized s \<or> recognized type)"
    and "m_types (snd (setVelocitySolveType type s)) = m_types s"
    and "m_jacobianSolver (snd (setVelocitySolveType type s)) = m_jacobianSolver s"
    and "m_jointNames (snd (setVelocitySolveType type s)) = m_jointNames s"
    and "m_chain (snd (setVelocitySolveType type s)) = m_chain s"
  using assms by (cases type; simp add: setVelocitySolveType_def Let_def)+

lemma setVelocitySolveType_preserves:
  assumes "setVelocitySolveType type s = (ok, s')"
  shows "m_jacobianSolver s' = m_jacobianSolver s \<and> m_jointNames s' = m_jointNames s \<and>
         m_chain s' = m_chain s \<and>
         (m_initialized s' \<longrightarrow>
            m_initialized s \<or> (m_ik_vel_solver s' \<noteq> None \<and> m_ik_pos_solver s' \<noteq> None)) \<and>
         (m_ik_vel_solver s \<noteq> None \<longrightarrow> m_ik_vel_solver s' \<noteq> None) \<and>
         (m_ik_pos_solver s \<noteq> None \<longrightarrow> m_ik_pos_solver s' \<noteq> None)"
  using assms
  by (cases type) (auto simp: setVelocitySolveType_def Let_def split: if_splits)

lemma SNS_IK_instance_invariant:
  assumes "SNS_IK_instance s"
  shows "(m_initialized s \<longrightarrow> m_ik_vel_solver s \<noteq> None \<and> m_ik_pos_solver s \<noteq> None) \<and>
         (\<forall>ch. m_jacobianSolver s = Some ch \<longrightarrow>
            ch = m_chain s \<and> length (m_jointNames s) = getNrOfJoints ch)"
  using assms
proof (induction rule: SNS_IK_instance.induct)
  case (constructed chain q_min q_max v_max a_max jointNames looprate eps type s)
  show ?case
  proof (cases "length q_min = getNrOfJoints chain \<and> length q_max = getNrOfJoints chain \<and>
                length v_max = getNrOfJoints chain \<and> length a_max = getNrOfJoints chain \<and>
                length jointNames = getNrOfJoints chain \<and> getNrOfJoints chain \<noteq> 0")
    case False
    from SNS_IK_new_unchecked [OF False, of looprate eps type] constructed show ?thesis
      by (auto simp: SNS_IK_members_def)
  next
    case True
    then have ok: "length q_min = getNrOfJoints chain" "length q_max = getNrOfJoints chain"
      "length v_max = getNrOfJoints chain" "length a_max = getNrOfJoints chain"
      "length jointNames = getNrOfJoints chain" "getNrOfJoints chain \<noteq> 0"
      by simp_all
    from SNS_IK_new_checked [OF ok, of looprate eps type] constructed obtain ts where
      s: "s = snd (setVelocitySolveType type
                ((SNS_IK_members chain q_min q_max v_max a_max jointNames looprate eps type)
                   \<lparr>m_types := ts, m_jacobianSolver := Some chain\<rparr>))"
      by auto
    define s2 where "s2 =
      (SNS_IK_members chain q_min q_max v_max a_max jointNames looprate eps type)
         \<lparr>m_types := ts, m_jacobianSolver := Some chain\<rparr>"
    have s2: "\<not> m_initialized s2" "m_ik_vel_solver s2 = None" "m_jacobianSolver s2 = Some chain"
      "m_jointNames s2 = jointNames" "m_chain s2 = chain"
      by (simp_all add: s2_def SNS_IK_members_def)
    obtain ok' where "setVelocitySolveType type s2 = (ok', s)"
      using s by (simp add: s2_def [symmetric]) (metis prod.collapse)
    from setVelocitySolveType_preserves [OF this] s2 ok(5) show ?thesis
      by auto
  qed
next
  case (solver_set s type ok s')
  from setVelocitySolveType_preserves [OF solver_set.hyps(2)] solver_set.IH show ?case
    by auto
qed

lemma desired_primary_task:
  "desired (primary_task jac v_in) = map (Twist_at v_in) [0..<6] \<and>
   length (desired (primary_task jac v_in)) = 6 \<and> jacobian (primary_task jac v_in) = jac"
proof -
  have "[0..<6] = [0, 1, 2, 3, 4, 5 :: nat]"
    by code_simp
  then show ?thesis
    by (simp add: primary_task_def)
qed

lemma replicate_6: "replicate 6 x = [x, x, x, x, x, x]"
  by (simp add: eval_nat_numeral)

lemma example_instance6_new:
  "SNS_IK_new example_chain6 (replicate 6 (- 3)) (replicate 6 3) (replicate 6 2) (replicate 6 5)
     example_names6 100 (1 / 1000) SNS = Inr example_instance6"
  by (simp add: SNS_IK_new_def SNS_IK_members_def initialize_def example_chain6_def
      example_names6_def example_segment_def replicate_6
      getNrOfJoints_def is_movable_def VectorD_at_def FLT_LOWEST_def FLT_MAX_def
      setVelocitySolveType_def example_instance6_def setJointsCapabilities_def
      usePositionLimits_def Let_def)

lemma nullspaceBias_loop_dimensions:
  "nullspaceBias_loop jn bn k ii jac idx = Inr (ok, jac', idx') \<Longrightarrow>
     mat_rows jac' = mat_rows jac \<and> mat_cols jac' = mat_cols jac"
proof (induction jn bn k ii jac idx rule: nullspaceBias_loop.induct)
  case (1 jn bn k ii jac idx)
  show ?case
  proof (cases "ii < k \<and> std_find jn (bn ! ii) \<noteq> length jn")
    case False
    with "1.prems" show ?thesis
      by (auto simp: nullspaceBias_loop.simps [of jn bn k ii] Let_def split: if_splits)
  next
    case True
    with "1.prems" obtain jac2 where
      set: "MatrixD_set jac ii (std_find jn (bn ! ii)) 1 = Inr jac2" and
      rest: "nullspaceBias_loop jn bn k (Suc ii) jac2 (idx[ii := std_find jn (bn ! ii)])
               = Inr (ok, jac', idx')"
      by (auto simp: nullspaceBias_loop.simps [of jn bn k ii] Let_def split: sum.splits)
    from set have "mat_rows jac2 = mat_rows jac \<and> mat_cols jac2 = mat_cols jac"
      by (auto simp: MatrixD_set_def split: if_splits)
    with "1.IH" [OF _ refl _ set rest] True show ?thesis
      by simp
  qed
qed

lemma nullspaceBiasTask_dimensions:
  assumes "nullspaceBiasTask s q_bias biasNames jac0 idx0 = Inr (ok, jac, idx)"
    and "length q_bias = length biasNames"
  shows "mat_rows jac = length (m_jointNames s) \<and> mat_cols jac = length q_bias"
  using assms nullspaceBias_loop_dimensions [of "m_jointNames s" biasNames "length q_bias" 0
      "MatrixD_Zero (length (m_jointNames s)) (length q_bias)"
      "vector_resize (length q_bias) 0 idx0" ok jac idx]
  by (simp add: nullspaceBiasTask_def MatrixD_Zero_def)




lemma example_absent_after_present:
  "CartToJntVel example_collaborators example_instance [0, 0, 0] example_twist [3, 4]
     [''j1'', ''j9''] [7] = Inr (- 1, [7])"
  by (simp add: CartToJntVel_def CartToJntVel_call_def example_instance_def
      example_collaborators_def JntToJac_def example_chain_def example_segment_def
      getNrOfJoints_def is_movable_def nullspaceBiasTask_def vector_resize_def
      MatrixD_Zero_def MatrixD_set_def nullspaceBias_loop.simps Let_def)

lemma example_instance6_facts:
  "m_initialized example_instance6"
  "m_jacobianSolver example_instance6 = Some example_chain6"
  "m_jointNames example_instance6 = [''j1'', ''j2'', ''j3'', ''j4'', ''j5'', ''j6'']"
  "JntToJac (JntToJac_values example_collaborators) example_chain6 [0, 0, 0, 0, 0, 0]
     = Some (MatrixD_Zero 6 (length [0, 0, 0, 0, 0, 0 :: real]))"
  by (simp_all add: example_instance6_def example_names6_def example_collaborators_def
      JntToJac_def example_chain6_def example_segment_def getNrOfJoints_def is_movable_def)



text \<open>
  What \<open>CartToJntVel\<close> hands to the velocity solver on a Ready instance built by the
  constructor, once the Jacobian computation has succeeded: the primary task alone for an
  empty bias array, and the primary task followed by the bias task whenever
  \<open>nullspaceBiasTask\<close> returns \<open>true\<close>.
\<close>

lemma CartToJntVel_task_stack:
  assumes "SNS_IK_instance s" and "m_initialized s"
    and "m_jacobianSolver s = Some ch"
    and "JntToJac (JntToJac_values c) ch q_in = Some jac"
  shows "ch = m_chain s \<and>
         jacobian (primary_task jac v_in) = jac \<and>
         desired (primary_task jac v_in) = map (Twist_at v_in) [0..<6] \<and>
         (q_bias = [] \<longrightarrow>
            (\<exists>solver. CartToJntVel_call c s q_in v_in q_bias biasNames
                        = Inr (VelSolve solver [primary_task jac v_in] q_in))) \<and>
         (q_bias \<noteq> [] \<and>
          nullspaceBiasTask s q_bias biasNames MatrixD_empty [] = Inr (True, jac2, idx) \<longrightarrow>
            (\<exists>solver d. CartToJntVel_call c s q_in v_in q_bias biasNames
                          = Inr (VelSolve solver
                                  [primary_task jac v_in, \<lparr>jacobian = jac2, desired = d\<rparr>] q_in)
                        \<and> length d = length q_bias))"
proof -
  from SNS_IK_instance_invariant [OF assms(1)] assms(2,3) obtain solver where
    solver: "m_ik_vel_solver s = Some solver" and
    chain: "ch = m_chain s" and names: "length (m_jointNames s) = getNrOfJoints ch"
    by auto
  from assms(4) have q_in: "length q_in = getNrOfJoints ch"
    by (simp add: JntToJac_def split: if_splits)
  have empty: "CartToJntVel_call c s q_in v_in q_bias biasNames
                 = Inr (VelSolve solver [primary_task jac v_in] q_in)" if "q_bias = []"
    using that assms(2,3,4) solver by (simp add: CartToJntVel_call_def)
  have bias: "\<exists>d. CartToJntVel_call c s q_in v_in q_bias biasNames
                    = Inr (VelSolve solver
                            [primary_task jac v_in, \<lparr>jacobian = jac2, desired = d\<rparr>] q_in)
                  \<and> length d = length q_bias"
    if "q_bias \<noteq> []"
      and task: "nullspaceBiasTask s q_bias biasNames MatrixD_empty [] = Inr (True, jac2, idx)"
  proof -
    from nullspaceBiasTask_True [OF task] names q_in
    have "\<forall>i. 0 \<le> i \<and> i < length q_bias \<longrightarrow> idx ! i < length q_in"
      by auto
    from nullspaceVelocity_loop_total [OF this] obtain d where
      loop: "nullspaceVelocity_loop (m_nullspaceGain s) (m_looprate s) q_bias q_in idx 0
               (replicate (length q_bias) 0) = Inr d"
      by blast
    from nullspaceVelocity_loop_Inr [OF loop] have "length d = length q_bias"
      by simp
    moreover have "CartToJntVel_call c s q_in v_in q_bias biasNames
        = Inr (VelSolve solver [primary_task jac v_in, \<lparr>jacobian = jac2, desired = d\<rparr>] q_in)"
      using that assms(2,3,4) solver loop by (simp add: CartToJntVel_call_def)
    ultimately show ?thesis by blast
  qed
  from chain empty bias desired_primary_task [of jac v_in] show ?thesis
    by blast
qed

section \<open>The claims\<close>

text \<open>
  C1. The claim asks for a bias Jacobian with one row per bias joint and one column per
  chain joint. The code allocates \<open>MatrixD::Zero(m_jointNames.size(), q_bias.rows())\<close>,
  one row per chain joint and one column per bias joint (\<open>nullspaceBiasTask_dimensions\<close>),
  and then writes at (bias row, joint column). On the six-joint chain the request
  \<open>[j2, j5]\<close> makes the second write, at row 1 and column 4, leave the 6 by 2 matrix, so
  no Jacobian is produced; the request \<open>[j2, j1]\<close> goes through and yields a matrix of
  6 rows and 2 columns.
\<close>

theorem bias_jacobian_dimensions_swapped:
  "SNS_IK_new example_chain6 (replicate 6 (- 3)) (replicate 6 3) (replicate 6 2) (replicate 6 5)
     [''j1'', ''j2'', ''j3'', ''j4'', ''j5'', ''j6''] 100 (1 / 1000) SNS = Inr example_instance6 \<and>
   nullspaceBiasTask example_instance6 [1 / 2, 1 / 4] [''j2'', ''j5''] MatrixD_empty []
     = Inl EigenIndexOutOfRange \<and>
   nullspaceBiasTask example_instance6 [1 / 2, 1 / 4] [''j2'', ''j1''] MatrixD_empty []
     = Inr (True,
            \<lparr>mat_rows = 6, mat_cols = 2, mat_data = [0, 1, 0, 0, 0, 0, 1, 0, 0, 0, 0, 0]\<rparr>,
            [1, 0])"
proof -
  have names: "m_jointNames example_instance6 = [''j1'', ''j2'', ''j3'', ''j4'', ''j5'', ''j6'']"
    by (simp add: example_instance6_def example_names6_def)
  have "nullspaceBiasTask example_instance6 [1 / 2, 1 / 4] [''j2'', ''j5''] MatrixD_empty []
     = Inl EigenIndexOutOfRange"
    by (simp add: nullspaceBiasTask_def names vector_resize_def MatrixD_Zero_def
        nullspaceBias_loop.simps MatrixD_set_def Let_def)
  moreover have "nullspaceBiasTask example_instance6 [1 / 2, 1 / 4] [''j2'', ''j1''] MatrixD_empty []
     = Inr (True,
            \<lparr>mat_rows = 6, mat_cols = 2, mat_data = [0, 1, 0, 0, 0, 0, 1, 0, 0, 0, 0, 0]\<rparr>,
            [1, 0])"
    by (simp add: nullspaceBiasTask_def names vector_resize_def MatrixD_Zero_def
        nullspaceBias_loop.simps MatrixD_set_def Let_def eval_nat_numeral)
  ultimately show ?thesis
    using example_instance6_new by (simp add: example_names6_def)
qed




text \<open>
  C3, as the code has it. The constructor from explicit arrays always returns an instance,
  and the instance is Ready if and only if the lower-bound, upper-bound, velocity and
  acceleration arrays and the list of joint names each have as many entries as the chain
  has movable joints, that number is not zero, the classification loop gave a type to as
  many joints as there are lower bounds (for a KDL chain this follows from the first
  condition, see \<open>classified_joints_eq\<close>), and the strategy tag is one of the five the
  switch recognises.
\<close>

theorem construction_ready_iff:
  "\<exists>s. SNS_IK_new chain q_min q_max v_max a_max jointNames looprate eps type = Inr s \<and>
       (m_initialized s \<longleftrightarrow>
          length q_min = getNrOfJoints chain \<and> length q_max = getNrOfJoints chain \<and>
          length v_max = getNrOfJoints chain \<and> length a_max = getNrOfJoints chain \<and>
          length jointNames = getNrOfJoints chain \<and> getNrOfJoints chain \<noteq> 0 \<and>
          classified_joints chain = length q_min \<and> recognized type)"
proof (cases "length q_min = getNrOfJoints chain \<and> length q_max = getNrOfJoints chain \<and>
              length v_max = getNrOfJoints chain \<and> length a_max = getNrOfJoints chain \<and>
              length jointNames = getNrOfJoints chain \<and> getNrOfJoints chain \<noteq> 0")
  case False
  from SNS_IK_new_unchecked [OF False] False show ?thesis
    by (auto simp: SNS_IK_members_def)
next
  case True
  then have "length q_min = getNrOfJoints chain" "length q_max = getNrOfJoints chain"
    "length v_max = getNrOfJoints chain" "length a_max = getNrOfJoints chain"
    "length jointNames = getNrOfJoints chain" "getNrOfJoints chain \<noteq> 0"
    by simp_all
  from SNS_IK_new_checked [OF this, of looprate eps type] obtain ts where
    new: "SNS_IK_new chain q_min q_max v_max a_max jointNames looprate eps type =
            Inr (snd (setVelocitySolveType type
                   ((SNS_IK_members chain q_min q_max v_max a_max jointNames looprate eps type)
                      \<lparr>m_types := ts, m_jacobianSolver := Some chain\<rparr>)))"
    by blast
  have "m_initialized (snd (setVelocitySolveType type
          ((SNS_IK_members chain q_min q_max v_max a_max jointNames looprate eps type)
             \<lparr>m_types := ts, m_jacobianSolver := Some chain\<rparr>))) = recognized type"
    by (subst setVelocitySolveType_fresh(1)) (simp_all add: SNS_IK_members_def)
  with new True show ?thesis
    by (simp add: classified_joints_eq)
qed

text \<open>The constructor call that builds the example instance.\<close>

theorem construction_ready_iff_witness:
  "SNS_IK_new example_chain [- 3, 0, FLT_LOWEST] [3, 1, FLT_MAX] [2, 2, 2] [5, 5, 5]
     [''j1'', ''j2'', ''j3''] 100 (1 / 1000) SNS = Inr example_instance \<and>
   m_initialized example_instance \<and>
   length [- 3, 0, FLT_LOWEST :: real] = getNrOfJoints example_chain \<and>
   getNrOfJoints example_chain \<noteq> 0 \<and>
   classified_joints example_chain = length [- 3, 0, FLT_LOWEST :: real] \<and> recognized SNS"
proof -
  have ready: "m_initialized example_instance"
    by (simp add: example_instance_def)
  from construction_ready_iff [of example_chain "[- 3, 0, FLT_LOWEST :: real]" "[3, 1, FLT_MAX]"
      "[2, 2, 2]" "[5, 5, 5]" "[''j1'', ''j2'', ''j3'']" 100 "1 / 1000" SNS]
    example_instance_new ready
  have "length [- 3, 0, FLT_LOWEST :: real] = getNrOfJoints example_chain \<and>
        getNrOfJoints example_chain \<noteq> 0 \<and>
        classified_joints example_chain = length [- 3, 0, FLT_LOWEST :: real] \<and> recognized SNS"
    by auto
  with example_instance_new ready show ?thesis
    by blast
qed

text \<open>
  C3 as stated fails: with the same chain and arrays and a tag outside the enumeration,
  every condition the claim lists holds and the instance is not Ready.
\<close>

theorem construction_tag_counterexample:
  "length [- 3, 0, FLT_LOWEST :: real] = getNrOfJoints example_chain \<and>
   length [3, 1, FLT_MAX :: real] = getNrOfJoints example_chain \<and>
   length [2, 2, 2 :: real] = getNrOfJoints example_chain \<and>
   length [5, 5, 5 :: real] = getNrOfJoints example_chain \<and>
   length [''j1'', ''j2'', ''j3''] = getNrOfJoints example_chain \<and>
   getNrOfJoints example_chain \<noteq> 0 \<and>
   classified_joints example_chain = getNrOfJoints example_chain \<and>
   (\<exists>s. SNS_IK_new example_chain [- 3, 0, FLT_LOWEST] [3, 1, FLT_MAX] [2, 2, 2] [5, 5, 5]
          [''j1'', ''j2'', ''j3''] 100 (1 / 1000 :: real) (SNS_Unrecognized 7) = Inr s \<and>
        \<not> m_initialized s)"
  by (simp add: SNS_IK_new_def SNS_IK_members_def initialize_def example_chain_def
      example_segment_def getNrOfJoints_def is_movable_def VectorD_at_def FLT_LOWEST_def
      FLT_MAX_def setVelocitySolveType_def Let_def classified_joints_def is_rotational_def
      is_translational_def)

text \<open>
  C4, as the code has it. After a successful construction \<open>m_types\<close> has one entry per
  movable joint, in chain order, and the stored bounds are the arrays passed in. The entry
  of a rotational joint is Continuous when its upper bound is at least
  \<open>numeric_limits<float>::max()\<close> and its lower bound is at most
  \<open>numeric_limits<float>::lowest()\<close>, and Revolute otherwise; the entry of a
  translational joint is Prismatic; every movable joint is one or the other.
\<close>

theorem joint_classification:
  assumes "SNS_IK_new chain q_min q_max v_max a_max jointNames looprate eps type = Inr s"
    and "m_initialized s" and "j < getNrOfJoints chain"
  shows "length (m_types s) = getNrOfJoints chain \<and>
         m_lower_bounds s = q_min \<and> m_upper_bounds s = q_max \<and>
         (is_rotational (filter is_movable (segments chain) ! j) \<and>
          q_max ! j \<ge> FLT_MAX \<and> q_min ! j \<le> FLT_LOWEST \<longrightarrow> m_types s ! j = Continuous) \<and>
         (is_rotational (filter is_movable (segments chain) ! j) \<and>
          \<not> (q_max ! j \<ge> FLT_MAX \<and> q_min ! j \<le> FLT_LOWEST) \<longrightarrow> m_types s ! j = Revolute) \<and>
         (is_translational (filter is_movable (segments chain) ! j) \<longrightarrow> m_types s ! j = Prismatic) \<and>
         (is_rotational (filter is_movable (segments chain) ! j) \<or>
          is_translational (filter is_movable (segments chain) ! j))"
proof -
  define seg where "seg = filter is_movable (segments chain) ! j"
  have checked: "length q_min = getNrOfJoints chain \<and> length q_max = getNrOfJoints chain \<and>
      length v_max = getNrOfJoints chain \<and> length a_max = getNrOfJoints chain \<and>
      length jointNames = getNrOfJoints chain \<and> getNrOfJoints chain \<noteq> 0"
  proof (rule ccontr)
    assume "\<not> ?thesis"
    from SNS_IK_new_unchecked [OF this, of looprate eps type] assms(1,2) show False
      by (auto simp: SNS_IK_members_def)
  qed
  then have ok: "length q_min = getNrOfJoints chain" "length q_max = getNrOfJoints chain"
    "length v_max = getNrOfJoints chain" "length a_max = getNrOfJoints chain"
    "length jointNames = getNrOfJoints chain" "getNrOfJoints chain \<noteq> 0"
    by simp_all
  define s0 where "s0 = SNS_IK_members chain q_min q_max v_max a_max jointNames looprate eps type"
  from SNS_IK_new_checked [OF ok, of looprate eps type] assms(1) obtain ts where
    len: "length ts = getNrOfJoints chain" and
    each: "\<And>j. j < getNrOfJoints chain \<Longrightarrow>
             ts ! j =
               (if is_rotational (filter is_movable (segments chain) ! j) then
                  (if q_max ! j \<ge> FLT_MAX \<and> q_min ! j \<le> FLT_LOWEST
                   then Continuous else Revolute)
                else Prismatic)" and
    s: "s = snd (setVelocitySolveType type (s0\<lparr>m_types := ts, m_jacobianSolver := Some chain\<rparr>))"
    unfolding s0_def by auto
  obtain ok' where set: "setVelocitySolveType type (s0\<lparr>m_types := ts, m_jacobianSolver := Some chain\<rparr>)
      = (ok', s)"
    using s by (metis prod.collapse)
  have fresh: "m_ik_vel_solver (s0\<lparr>m_types := ts, m_jacobianSolver := Some chain\<rparr>) = None"
    by (simp add: s0_def SNS_IK_members_def)
  have types: "m_types s = ts"
    using setVelocitySolveType_fresh(2) [OF fresh, of type] s by simp
  have bounds: "m_lower_bounds s = q_min \<and> m_upper_bounds s = q_max"
    using set by (cases type)
      (auto simp: setVelocitySolveType_def Let_def s0_def SNS_IK_members_def split: if_splits)
  have "is_movable seg"
    using assms(3) nth_mem [of j "filter is_movable (segments chain)"]
    by (auto simp: seg_def getNrOfJoints_def)
  then have kind: "is_rotational seg \<or> is_translational seg"
    by (simp add: is_movable_iff)
  from each [OF assms(3)] types len bounds kind rotational_not_translational [of seg]
  show ?thesis
    unfolding seg_def [symmetric] by auto
qed

text \<open>
  The three movable joints of the example chain: a rotational joint with finite bounds, a
  translational joint, and a rotational joint with the sentinel bounds.
\<close>

theorem joint_classification_witness:
  "SNS_IK_new example_chain [- 3, 0, FLT_LOWEST] [3, 1, FLT_MAX] [2, 2, 2] [5, 5, 5]
     [''j1'', ''j2'', ''j3''] 100 (1 / 1000) SNS = Inr example_instance \<and>
   m_initialized example_instance \<and> (2 :: nat) < getNrOfJoints example_chain \<and>
   is_rotational (filter is_movable (segments example_chain) ! 0) \<and>
   \<not> [3, 1, FLT_MAX :: real] ! 0 \<ge> FLT_MAX \<and>
   m_types example_instance ! 0 = Revolute \<and>
   is_translational (filter is_movable (segments example_chain) ! 1) \<and>
   m_types example_instance ! 1 = Prismatic \<and>
   is_rotational (filter is_movable (segments example_chain) ! 2) \<and>
   [3, 1, FLT_MAX :: real] ! 2 \<ge> FLT_MAX \<and> [- 3, 0, FLT_LOWEST :: real] ! 2 \<le> FLT_LOWEST \<and>
   m_types example_instance ! 2 = Continuous"
proof -
  have ready: "m_initialized example_instance"
    by (simp add: example_instance_def)
  have j: "(0 :: nat) < getNrOfJoints example_chain" "(1 :: nat) < getNrOfJoints example_chain"
    "(2 :: nat) < getNrOfJoints example_chain"
    by (simp_all add: example_chain_def example_segment_def getNrOfJoints_def is_movable_def)
  have kinds: "is_rotational (filter is_movable (segments example_chain) ! 0)"
    "is_translational (filter is_movable (segments example_chain) ! 1)"
    "is_rotational (filter is_movable (segments example_chain) ! 2)"
    by (simp_all add: example_chain_def example_segment_def is_movable_def is_rotational_def
        is_translational_def)
  have finite: "\<not> [3, 1, FLT_MAX :: real] ! 0 \<ge> FLT_MAX"
    by (simp add: FLT_MAX_def)
  from joint_classification [OF example_instance_new ready j(1)] kinds(1) finite
  have "m_types example_instance ! 0 = Revolute"
    by blast
  moreover from joint_classification [OF example_instance_new ready j(2)] kinds(2)
  have "m_types example_instance ! 1 = Prismatic"
    by blast
  moreover from joint_classification [OF example_instance_new ready j(3)] kinds(3)
  have "m_types example_instance ! 2 = Continuous"
    by simp
  ultimately show ?thesis
    using example_instance_new ready j(3) kinds finite by simp
qed

text \<open>
  C4 as stated fails for bounds beyond the sentinel: a rotational joint whose upper bound
  is twice \<open>numeric_limits<float>::max()\<close> does not have exactly the sentinel bounds,
  and is classified Continuous, not Revolute.
\<close>

theorem joint_classification_counterexample:
  "is_rotational (example_segment ''j1'' RotZ) \<and>
   (2 * FLT_MAX :: real) \<noteq> FLT_MAX \<and>
   (\<exists>s. SNS_IK_new \<lparr>segments = [example_segment ''j1'' RotZ]\<rparr> [FLT_LOWEST] [2 * FLT_MAX] [2] [5]
          [''j1''] 100 (1 / 1000 :: real) SNS = Inr s \<and>
        m_initialized s \<and> m_upper_bounds s = [2 * FLT_MAX] \<and> m_types s = [Continuous])"
  by (simp add: SNS_IK_new_def SNS_IK_members_def initialize_def
      example_segment_def getNrOfJoints_def is_movable_def VectorD_at_def FLT_LOWEST_def
      FLT_MAX_def setVelocitySolveType_def Let_def is_rotational_def
      setJointsCapabilities_def usePositionLimits_def)

text \<open>
  C5. In \<open>CartToJntVel\<close>, when a bias task is built (the bias values are not empty and
  the call reaches the velocity solver), the stack handed over has two tasks, the second
  one's desired vector has one entry per bias value, and entry \<open>i\<close> is
  \<open>m_nullspaceGain * (q_bias(i) - q_in(index)) / m_looprate\<close>, where \<open>index\<close> is the
  position the name lookup finds for bias joint \<open>i\<close>, which lies inside \<open>q_in\<close>.
\<close>

theorem bias_desired_velocity:
  assumes "CartToJntVel_call c s q_in v_in q_bias biasNames = Inr (VelSolve solver sot q)"
    and "q_bias \<noteq> []" and "i < length q_bias"
  shows "length sot = 2 \<and> length (desired (sot ! 1)) = length q_bias \<and>
         std_find (m_jointNames s) (biasNames ! i) < length q_in \<and>
         desired (sot ! 1) ! i =
           m_nullspaceGain s * (q_bias ! i - q_in ! std_find (m_jointNames s) (biasNames ! i))
             / m_looprate s"
proof -
  from CartToJntVel_call_bias [OF assms(1,2)] obtain jac jac2 idx d where
    task: "nullspaceBiasTask s q_bias biasNames MatrixD_empty [] = Inr (True, jac2, idx)" and
    loop: "nullspaceVelocity_loop (m_nullspaceGain s) (m_looprate s) q_bias q_in idx 0
             (replicate (length q_bias) 0) = Inr d" and
    sot: "sot = [primary_task jac v_in, \<lparr>jacobian = jac2, desired = d\<rparr>]"
    by blast
  from nullspaceBiasTask_True [OF task] assms(3)
  have idx: "idx ! i = std_find (m_jointNames s) (biasNames ! i)"
    by simp
  from nullspaceVelocity_loop_Inr [OF loop] assms(3)
  have "length d = length q_bias" and "idx ! i < length q_in"
    and "d ! i = m_nullspaceGain s * (q_bias ! i - q_in ! (idx ! i)) / m_looprate s"
    by auto
  with idx sot show ?thesis
    by simp
qed

text \<open>
  The example instance, current joints \<open>[1, 0, 0]\<close> and the bias request \<open>j1 \<mapsto> 3\<close>: the
  desired velocity of the bias row is \<open>1 * (3 - 1) / 100\<close>.
\<close>

theorem bias_desired_velocity_witness:
  "CartToJntVel_call example_collaborators example_instance [1, 0, 0] example_twist [3] [''j1'']
     = Inr (VelSolve example_solver
             [primary_task (MatrixD_Zero 6 3) example_twist,
              \<lparr>jacobian = \<lparr>mat_rows = 3, mat_cols = 1, mat_data = [1, 0, 0]\<rparr>,
               desired = [1 / 50]\<rparr>] [1, 0, 0]) \<and>
   [3 :: real] \<noteq> [] \<and> (0 :: nat) < length [3 :: real] \<and>
   std_find (m_jointNames example_instance) ([''j1''] ! 0) = 0 \<and>
   desired ([primary_task (MatrixD_Zero 6 3) example_twist,
             \<lparr>jacobian = \<lparr>mat_rows = 3, mat_cols = 1, mat_data = [1, 0, 0]\<rparr>,
              desired = [1 / 50 :: real]\<rparr>] ! 1) ! 0
     = m_nullspaceGain example_instance * (3 - 1) / m_looprate example_instance"
  using bias_desired_velocity [OF example_bias_call, of 0] example_bias_call
  by (simp add: example_instance_def)

text \<open>
  C6. The claim asks, for a Ready instance and a successful Jacobian computation, that a
  bias request whose names all occur in the chain and whose counts agree reaches the
  velocity solver as the second task of a stack of length 2. On the six-joint instance
  built by the constructor, with current joints of six zeros, the request \<open>[j2, j5]\<close>
  with two values meets all of that, and the call ends in the write at row 1 and column 4
  of the 6 by 2 bias Jacobian: nothing is handed to the velocity solver. (The part of the
  claim about an empty bias request holds, see \<open>CartToJntVel_task_stack\<close>.)
\<close>

theorem velocity_task_stack_out_of_range:
  "SNS_IK_instance example_instance6 \<and> m_initialized example_instance6 \<and>
   m_jacobianSolver example_instance6 = Some example_chain6 \<and>
   JntToJac (JntToJac_values example_collaborators) example_chain6 [0, 0, 0, 0, 0, 0] \<noteq> None \<and>
   ''j2'' \<in> set (m_jointNames example_instance6) \<and>
   ''j5'' \<in> set (m_jointNames example_instance6) \<and>
   length [1 / 2, 1 / 4 :: real] = length [''j2'', ''j5''] \<and>
   CartToJntVel_call example_collaborators example_instance6 [0, 0, 0, 0, 0, 0] example_twist
     [1 / 2, 1 / 4] [''j2'', ''j5''] = Inl EigenIndexOutOfRange \<and>
   CartToJntVel example_collaborators example_instance6 [0, 0, 0, 0, 0, 0] example_twist
     [1 / 2, 1 / 4] [''j2'', ''j5''] [] = Inl EigenIndexOutOfRange"
proof -
  have reachable: "SNS_IK_instance example_instance6"
    using example_instance6_new by (rule SNS_IK_instance.constructed)
  have task: "nullspaceBiasTask example_instance6 [1 / 2, 1 / 4] [''j2'', ''j5''] MatrixD_empty []
     = Inl EigenIndexOutOfRange"
    by (simp add: nullspaceBiasTask_def example_instance6_facts vector_resize_def MatrixD_Zero_def
        nullspaceBias_loop.simps MatrixD_set_def Let_def)
  have call: "CartToJntVel_call example_collaborators example_instance6 [0, 0, 0, 0, 0, 0]
      example_twist [1 / 2, 1 / 4] [''j2'', ''j5''] = Inl EigenIndexOutOfRange"
    by (simp add: CartToJntVel_call_def example_instance6_facts task)
  then have "CartToJntVel example_collaborators example_instance6 [0, 0, 0, 0, 0, 0] example_twist
     [1 / 2, 1 / 4] [''j2'', ''j5''] [] = Inl EigenIndexOutOfRange"
    by (simp add: CartToJntVel_def)
  with reachable call show ?thesis
    by (simp add: example_instance6_facts)
qed




text \<open>
  C8. When \<open>setVelocitySolveType\<close> is called with the tag that is already stored while a
  velocity solver exists, it returns \<open>false\<close> and leaves the instance as it was (every
  member, the solvers, the tag, the bounds and the flag included), so a later solve call
  behaves as it would have before.
\<close>

theorem setVelocitySolveType_same_tag:
  assumes "m_solvetype s = type" and "m_ik_vel_solver s = Some solver"
  shows "setVelocitySolveType type s = (False, s) \<and>
         CartToJntVel c (snd (setVelocitySolveType type s)) q_in v_in q_bias biasNames qdot_out
           = CartToJntVel c s q_in v_in q_bias biasNames qdot_out \<and>
         CartToJnt c (snd (setVelocitySolveType type s)) q_init p_in q_bias biasNames q_out bounds
           = CartToJnt c s q_init p_in q_bias biasNames q_out bounds"
  using assms by (simp add: setVelocitySolveType_def)

text \<open>The example instance holds an \<open>SNS\<close> solver; asking for \<open>SNS\<close> again changes nothing.\<close>

theorem setVelocitySolveType_same_tag_witness:
  "m_solvetype example_instance = SNS \<and>
   m_ik_vel_solver example_instance = Some example_solver \<and>
   setVelocitySolveType SNS example_instance = (False, example_instance) \<and>
   CartToJntVel example_collaborators (snd (setVelocitySolveType SNS example_instance))
     [0, 0, 0] example_twist [] [] [] = Inr (1, [0, 0, 0])"
  using setVelocitySolveType_same_tag [of example_instance SNS example_solver
      example_collaborators "[0, 0, 0]" example_twist "[]" "[]" "[]"]
    example_velocity_solve
  by (simp add: example_instance_def)

text \<open>
  C9. The claim asks that every write of a 1 lies inside the allocated matrix. On the
  six-joint chain the request \<open>[j5]\<close> allocates 6 rows and 1 column and writes at row 0
  and column 4, outside the matrix; \<open>nullspaceBiasTask\<close> and the \<open>CartToJntVel\<close> call
  around it end there.
\<close>

theorem bias_jacobian_write_out_of_range:
  "std_find (m_jointNames example_instance6) ''j5'' = 4 \<and>
   mat_rows (MatrixD_Zero (length (m_jointNames example_instance6)) (length [1 / 4 :: real])
               :: real MatrixD) = 6 \<and>
   mat_cols (MatrixD_Zero (length (m_jointNames example_instance6)) (length [1 / 4 :: real])
               :: real MatrixD) = 1 \<and>
   MatrixD_set (MatrixD_Zero 6 1) 0 4 (1 :: real) = Inl EigenIndexOutOfRange \<and>
   nullspaceBiasTask example_instance6 [1 / 4] [''j5''] MatrixD_empty []
     = Inl EigenIndexOutOfRange \<and>
   CartToJntVel example_collaborators example_instance6 [0, 0, 0, 0, 0, 0] example_twist
     [1 / 4] [''j5''] [] = Inl EigenIndexOutOfRange"
proof -
  have names: "m_jointNames example_instance6 = [''j1'', ''j2'', ''j3'', ''j4'', ''j5'', ''j6'']"
    by (simp add: example_instance6_def example_names6_def)
  have task: "nullspaceBiasTask example_instance6 [1 / 4] [''j5''] MatrixD_empty []
     = Inl EigenIndexOutOfRange"
    by (simp add: nullspaceBiasTask_def names vector_resize_def MatrixD_Zero_def
        nullspaceBias_loop.simps MatrixD_set_def Let_def)
  have "CartToJntVel example_collaborators example_instance6 [0, 0, 0, 0, 0, 0] example_twist
     [1 / 4] [''j5''] [] = Inl EigenIndexOutOfRange"
  proof -
    have ready: "m_initialized example_instance6"
      and solver: "m_jacobianSolver example_instance6 = Some example_chain6"
      by (simp_all add: example_instance6_def)
    have jac: "JntToJac (JntToJac_values example_collaborators) example_chain6 [0, 0, 0, 0, 0, 0]
        = Some (MatrixD_Zero 6 (length [0, 0, 0, 0, 0, 0 :: real]))"
      by (simp add: example_collaborators_def JntToJac_def example_chain6_def
          example_names6_def example_segment_def getNrOfJoints_def is_movable_def)
    show ?thesis
      by (simp add: CartToJntVel_def CartToJntVel_call_def task ready solver jac)
  qed
  with task show ?thesis
    by (simp add: names MatrixD_Zero_def MatrixD_set_def)
qed

text \<open>
  C10. When the bias values array is empty, \<open>CartToJnt\<close> and \<open>CartToJntVel\<close> treat the
  bias request as absent, whatever the list of bias names holds: the call does what it
  does with no names at all, it never reports a failed bias task, \<open>CartToJnt\<close> never
  hands a bias Jacobian to the position solver, and a stack \<open>CartToJntVel\<close> hands to
  the velocity solver holds the primary task only. This holds for every instance, a
  Ready one in particular.
\<close>

theorem empty_bias_values_absent:
  "CartToJnt_call s q_init p_in [] biasNames bounds = CartToJnt_call s q_init p_in [] [] bounds \<and>
   CartToJnt_call s q_init p_in [] biasNames bounds \<noteq> Inr PosBiasTaskFailed \<and>
   (\<forall>solver qi p qb jac idx gain b.
      CartToJnt_call s q_init p_in [] biasNames bounds \<noteq> Inr (PosSolveBias solver qi p qb jac idx gain b)) \<and>
   CartToJntVel_call c s q_in v_in [] biasNames = CartToJntVel_call c s q_in v_in [] [] \<and>
   CartToJntVel_call c s q_in v_in [] biasNames \<noteq> Inr VelBiasTaskFailed \<and>
   (\<forall>solver sot q.
      CartToJntVel_call c s q_in v_in [] biasNames = Inr (VelSolve solver sot q) \<longrightarrow>
        (\<exists>jac. sot = [primary_task jac v_in]))"
  by (auto simp: CartToJnt_call_def CartToJntVel_call_def split: option.splits)

text \<open>The Ready example instance, no bias values and two bias names, one of them unknown.\<close>

theorem empty_bias_values_absent_witness:
  "m_initialized example_instance \<and>
   CartToJntVel_call example_collaborators example_instance [0, 0, 0] example_twist [] [''j9'', ''j1'']
     = CartToJntVel_call example_collaborators example_instance [0, 0, 0] example_twist [] [] \<and>
   CartToJntVel_call example_collaborators example_instance [0, 0, 0] example_twist [] [''j9'', ''j1'']
     = Inr (VelSolve example_solver [primary_task (MatrixD_Zero 6 3) example_twist] [0, 0, 0])"
proof -
  have ready: "m_initialized example_instance"
    by (simp add: example_instance_def)
  from empty_bias_values_absent [of example_instance "[]" example_frame "[''j9'', ''j1'']"
      example_twist example_collaborators "[0, 0, 0]" example_twist]
  have "CartToJntVel_call example_collaborators example_instance [0, 0, 0] example_twist []
          [''j9'', ''j1'']
        = CartToJntVel_call example_collaborators example_instance [0, 0, 0] example_twist [] []"
    by blast
  with ready example_empty_values_call show ?thesis
    by simp
qed

end
